theory Spec2Isabelle
  imports Main "HOL-Library.Word"
begin

section \<open>Calls that may wait\<close>

text \<open>
  The methods of \<^verbatim>\<open>File\<close> take mutexes, so a call does not always return. A call is
  modelled as one uninterrupted run from a given state of the File, with one of four ends:
  \<^item> \<open>Blocked\<close>: the run reaches a \<^verbatim>\<open>Lock\<close> or \<^verbatim>\<open>RLock\<close> that is not available in this
    state; the call waits there and returns only after another holder's release;
  \<^item> \<open>Fatal\<close>: the Go runtime stops the program (unlock of a mutex that is not locked);
  \<^item> \<open>Panicked s\<close>: the run panics in state \<open>s\<close>; deferred calls still run;
  \<^item> \<open>Returned s a\<close>: the call returns \<open>a\<close> and leaves the state \<open>s\<close>.
\<close>

datatype ('s, 'a) outcome = Blocked | Fatal | Panicked 's | Returned 's 'a

definition then_do :: "('s, 'a) outcome \<Rightarrow> ('s \<Rightarrow> 'a \<Rightarrow> ('s, 'b) outcome) \<Rightarrow> ('s, 'b) outcome" where
  "then_do r k =
     (case r of
        Blocked \<Rightarrow> Blocked
      | Fatal \<Rightarrow> Fatal
      | Panicked s \<Rightarrow> Panicked s
      | Returned s a \<Rightarrow> k s a)"

section \<open>sync.Mutex and sync.RWMutex\<close>

text \<open>
  A mutex is modelled by who holds it. Acquiring gives \<open>None\<close> when the caller has to
  wait; releasing gives \<open>None\<close> when the mutex is not held in that way (a fatal error of
  the Go runtime).
\<close>

datatype Mutex = Unlocked | Locked

fun Mutex_Lock :: "Mutex \<Rightarrow> Mutex option" where
  "Mutex_Lock Unlocked = Some Locked"
| "Mutex_Lock Locked = None"

fun Mutex_Unlock :: "Mutex \<Rightarrow> Mutex option" where
  "Mutex_Unlock Locked = Some Unlocked"
| "Mutex_Unlock Unlocked = None"

record RWMutex =
  readerCount :: nat
  writer :: bool

definition RWMutex_zero :: RWMutex where
  "RWMutex_zero = \<lparr>readerCount = 0, writer = False\<rparr>"

definition RLock :: "RWMutex \<Rightarrow> RWMutex option" where
  "RLock l = (if writer l then None else Some (l\<lparr>readerCount := Suc (readerCount l)\<rparr>))"

definition RUnlock :: "RWMutex \<Rightarrow> RWMutex option" where
  "RUnlock l = (if readerCount l = 0 then None else Some (l\<lparr>readerCount := readerCount l - 1\<rparr>))"

definition Lock :: "RWMutex \<Rightarrow> RWMutex option" where
  "Lock l = (if writer l \<or> 0 < readerCount l then None else Some (l\<lparr>writer := True\<rparr>))"

definition Unlock :: "RWMutex \<Rightarrow> RWMutex option" where
  "Unlock l = (if writer l then Some (l\<lparr>writer := False\<rparr>) else None)"

section \<open>Nodes, errors and the collaborators of File\<close>

type_synonym byte = "8 word"
type_synonym uint64 = "64 word"

text \<open>
  \<^verbatim>\<open>ipld.Node\<close> is an interface; the type switches of \<^verbatim>\<open>file.go\<close> tell
  \<^verbatim>\<open>*dag.ProtoNode\<close> and \<^verbatim>\<open>*dag.RawNode\<close> from every other implementation. A value of
  \<open>node\<close> is a node that exists; the nil interface value is \<open>None\<close> of \<open>node option\<close>,
  the type of the argument of \<^verbatim>\<open>NewFile\<close>. The field \<^verbatim>\<open>node\<close> of a File that \<^verbatim>\<open>NewFile\<close>
  has returned is not nil. \<open>Version\<close> is \<^verbatim>\<open>Cid().Prefix().Version\<close>, a \<^verbatim>\<open>uint64\<close>.
\<close>

datatype node =
    ProtoNode (Version: uint64) (Data: "byte list")
  | RawNode (Version: uint64) (RawData: "byte list")
  | OtherNode (Version: uint64)

text \<open>A Go \<^verbatim>\<open>error\<close> value, by its message; \<^verbatim>\<open>nil\<close> is \<open>None\<close> of \<open>error option\<close>.\<close>

datatype error = Errorf string

text \<open>
  The type tags of go-unixfs (\<^verbatim>\<open>ft.TRaw\<close>, \<^verbatim>\<open>ft.TFile\<close>, \<^verbatim>\<open>ft.TSymlink\<close>, ...) and what
  \<^verbatim>\<open>Open\<close> and \<^verbatim>\<open>Size\<close> read of a decoded \<^verbatim>\<open>FSNode\<close>: \<^verbatim>\<open>Type()\<close> and \<^verbatim>\<open>FileSize()\<close>, the
  latter a \<^verbatim>\<open>uint64\<close>. The decoder \<^verbatim>\<open>ft.FSNodeFromBytes\<close> belongs to go-unixfs and is a
  parameter of the model.
\<close>

datatype DataType = TRaw | TDirectory | TFile | TMetadata | TSymlink | THAMTShard

record FSNode =
  Type :: DataType
  FileSize :: uint64

type_synonym decoder = "byte list \<Rightarrow> error + FSNode"

text \<open>
  \<^verbatim>\<open>mod.DagModifier\<close> belongs to go-unixfs: \<open>'m\<close> is its state, of which \<^verbatim>\<open>Open\<close> writes
  the field \<^verbatim>\<open>RawLeaves\<close> only. The constructor \<^verbatim>\<open>mod.NewDagModifier\<close> is a parameter of
  the model; it receives the node and the DAG service (\<^verbatim>\<open>context.TODO()\<close> and
  \<^verbatim>\<open>chunker.DefaultSplitter\<close> are constants).
\<close>

record 'm DagModifier =
  dm_RawLeaves :: bool
  dm_state :: 'm

type_synonym ('d, 'm) constructor = "node \<Rightarrow> 'd \<Rightarrow> error + 'm DagModifier"

section \<open>File and fileDescriptor\<close>

record ('p, 'd) inode =
  name :: string
  parent :: 'p
  dagService :: 'd

record ('p, 'd) File =
  inode :: "('p, 'd) inode"
  desclock :: RWMutex
  node :: node
  nodelk :: Mutex
  RawLeaves :: bool

text \<open>
  The descriptor's field \<^verbatim>\<open>inode\<close> points back to the File; in the model the File is the
  state that every call receives and returns.
\<close>

record 'm fileDescriptor =
  perms :: int
  sync :: bool
  mod' :: "'m DagModifier"

definition OpenReadOnly :: int where "OpenReadOnly = 0"
definition OpenWriteOnly :: int where "OpenWriteOnly = 1"
definition OpenReadWrite :: int where "OpenReadWrite = 2"

subsection \<open>The locks of a File\<close>

definition nodelk_Lock :: "('p, 'd) File \<Rightarrow> (('p, 'd) File, unit) outcome" where
  "nodelk_Lock fi =
     (case Mutex_Lock (nodelk fi) of
        None \<Rightarrow> Blocked
      | Some m \<Rightarrow> Returned (fi\<lparr>nodelk := m\<rparr>) ())"

definition nodelk_Unlock :: "('p, 'd) File \<Rightarrow> (('p, 'd) File, unit) outcome" where
  "nodelk_Unlock fi =
     (case Mutex_Unlock (nodelk fi) of
        None \<Rightarrow> Fatal
      | Some m \<Rightarrow> Returned (fi\<lparr>nodelk := m\<rparr>) ())"

definition desclock_RLock :: "('p, 'd) File \<Rightarrow> (('p, 'd) File, unit) outcome" where
  "desclock_RLock fi =
     (case RLock (desclock fi) of
        None \<Rightarrow> Blocked
      | Some l \<Rightarrow> Returned (fi\<lparr>desclock := l\<rparr>) ())"

definition desclock_Lock :: "('p, 'd) File \<Rightarrow> (('p, 'd) File, unit) outcome" where
  "desclock_Lock fi =
     (case Lock (desclock fi) of
        None \<Rightarrow> Blocked
      | Some l \<Rightarrow> Returned (fi\<lparr>desclock := l\<rparr>) ())"

definition desclock_Unlock :: "('p, 'd) File \<Rightarrow> (('p, 'd) File, unit) outcome" where
  "desclock_Unlock fi =
     (case Unlock (desclock fi) of
        None \<Rightarrow> Fatal
      | Some l \<Rightarrow> Returned (fi\<lparr>desclock := l\<rparr>) ())"

subsection \<open>NewFile\<close>

text \<open>
  \<^verbatim>\<open>NewFile\<close> touches no File that exists, so the state of its outcome is \<open>()\<close>. Line 38
  calls \<^verbatim>\<open>node.Cid()\<close> on the argument with no guard: on the nil interface value the call
  panics before the only \<^verbatim>\<open>return\<close> is reached.
\<close>

definition NewFile ::
  "string \<Rightarrow> node option \<Rightarrow> 'p \<Rightarrow> 'd \<Rightarrow> (unit, error + ('p, 'd) File) outcome" where
  "NewFile nm ndo par dserv =
     (case ndo of
        None \<Rightarrow> Panicked ()
      | Some nd \<Rightarrow>
          (let fi = \<lparr>inode = \<lparr>name = nm, parent = par, dagService = dserv\<rparr>,
                     desclock = RWMutex_zero,
                     node = nd,
                     nodelk = Unlocked,
                     RawLeaves = False\<rparr>;
               fi = (if 0 < Version nd then fi\<lparr>RawLeaves := True\<rparr> else fi)
           in Returned () (Inr fi)))"

subsection \<open>Open\<close>

text \<open>Lines 51 to 53: the snapshot of the current node, under the node mutex.\<close>

definition snapshot :: "('p, 'd) File \<Rightarrow> (('p, 'd) File, node) outcome" where
  "snapshot fi =
     then_do (nodelk_Lock fi) (\<lambda>fi _.
       let nd = node fi in
       then_do (nodelk_Unlock fi) (\<lambda>fi _. Returned fi nd))"

text \<open>
  Lines 55 to 72: the type switch on the snapshot. \<open>Some err\<close> is the early
  \<^verbatim>\<open>return nil, err\<close>; \<open>None\<close> leaves the switch. The switch has no default case.
\<close>

definition unsupported_fsnode_type :: string where
  "unsupported_fsnode_type = ''unsupported fsnode type for '' @ [CHR 0x27] @ ''file'' @ [CHR 0x27]"

definition checkNode :: "decoder \<Rightarrow> node \<Rightarrow> error option" where
  "checkNode FSNodeFromBytes nd =
     (case nd of
        ProtoNode _ d \<Rightarrow>
          (case FSNodeFromBytes d of
             Inl err \<Rightarrow> Some err
           | Inr fsn \<Rightarrow>
               (case Type fsn of
                  TSymlink \<Rightarrow> Some (Errorf ''symlinks not yet supported'')
                | TFile \<Rightarrow> None
                | TRaw \<Rightarrow> None
                | _ \<Rightarrow> Some (Errorf unsupported_fsnode_type)))
      | RawNode _ _ \<Rightarrow> None
      | OtherNode _ \<Rightarrow> None)"

text \<open>
  A file-shaped node: a structured node whose payload decodes to the type file or raw, or
  a raw-leaf node.
\<close>

definition fileShaped :: "decoder \<Rightarrow> node \<Rightarrow> bool" where
  "fileShaped FSNodeFromBytes nd =
     (case nd of
        ProtoNode _ d \<Rightarrow>
          (case FSNodeFromBytes d of
             Inl _ \<Rightarrow> False
           | Inr fsn \<Rightarrow> Type fsn = TFile \<or> Type fsn = TRaw)
      | RawNode _ _ \<Rightarrow> True
      | OtherNode _ \<Rightarrow> False)"

text \<open>Lines 74 to 82: the switch on the flags. \<open>Some err\<close> is the early return.\<close>

definition lockFor :: "int \<Rightarrow> ('p, 'd) File \<Rightarrow> (('p, 'd) File, error option) outcome" where
  "lockFor flags fi =
     (if flags = OpenReadOnly then
        then_do (desclock_RLock fi) (\<lambda>fi _. Returned fi None)
      else if flags = OpenWriteOnly \<or> flags = OpenReadWrite then
        then_do (desclock_Lock fi) (\<lambda>fi _. Returned fi None)
      else Returned fi (Some (Errorf ''mode not supported'')))"

text \<open>
  Lines 84 to 95: the Modifier is built on the snapshot and receives the File's
  \<^verbatim>\<open>RawLeaves\<close>; an error of the constructor is the early \<^verbatim>\<open>return nil, err\<close>.
\<close>

definition newDescriptor ::
  "('d, 'm) constructor \<Rightarrow> ('p, 'd) File \<Rightarrow> node \<Rightarrow> int \<Rightarrow> bool \<Rightarrow> error + 'm fileDescriptor" where
  "newDescriptor NewDagModifier fi nd flags sy =
     (case NewDagModifier nd (dagService (inode fi)) of
        Inl err \<Rightarrow> Inl err
      | Inr dmod \<Rightarrow>
          (let dmod = dmod\<lparr>dm_RawLeaves := RawLeaves fi\<rparr>
           in Inr \<lparr>perms = flags, sync = sy, mod' = dmod\<rparr>))"

text \<open>Lines 74 to 95: what \<^verbatim>\<open>Open\<close> does once the type switch is left.\<close>

definition lockAndConstruct ::
  "('d, 'm) constructor \<Rightarrow> ('p, 'd) File \<Rightarrow> node \<Rightarrow> int \<Rightarrow> bool
     \<Rightarrow> (('p, 'd) File, error + 'm fileDescriptor) outcome" where
  "lockAndConstruct NewDagModifier fi nd flags sy =
     then_do (lockFor flags fi) (\<lambda>fi r.
       case r of
         Some err \<Rightarrow> Returned fi (Inl err)
       | None \<Rightarrow> Returned fi (newDescriptor NewDagModifier fi nd flags sy))"

definition Open ::
  "decoder \<Rightarrow> ('d, 'm) constructor \<Rightarrow> ('p, 'd) File \<Rightarrow> int \<Rightarrow> bool
     \<Rightarrow> (('p, 'd) File, error + 'm fileDescriptor) outcome" where
  "Open FSNodeFromBytes NewDagModifier fi flags sy =
     then_do (snapshot fi) (\<lambda>fi nd.
       case checkNode FSNodeFromBytes nd of
         Some err \<Rightarrow> Returned fi (Inl err)
       | None \<Rightarrow> lockAndConstruct NewDagModifier fi nd flags sy)"

subsection \<open>Size and GetNode\<close>

text \<open>
  \<^verbatim>\<open>int64(x)\<close> of a \<^verbatim>\<open>uint64\<close> keeps the 64 bits and reads them as two's complement.
  \<^verbatim>\<open>len\<close> is an \<^verbatim>\<open>int\<close> already, so \<^verbatim>\<open>int64(len(b))\<close> is the length. The results are
  the values of the \<^verbatim>\<open>int64\<close>.
\<close>

definition int64 :: "uint64 \<Rightarrow> int" where
  "int64 x = sint x"

definition Size :: "decoder \<Rightarrow> ('p, 'd) File \<Rightarrow> (('p, 'd) File, error + int) outcome" where
  "Size FSNodeFromBytes fi =
     then_do (nodelk_Lock fi) (\<lambda>fi _.
       let r = (case node fi of
                  ProtoNode _ d \<Rightarrow>
                    (case FSNodeFromBytes d of
                       Inl err \<Rightarrow> Inl err
                     | Inr fsn \<Rightarrow> Inr (int64 (FileSize fsn)))
                | RawNode _ d \<Rightarrow> Inr (int (length d))
                | OtherNode _ \<Rightarrow> Inl (Errorf ''unrecognized node type in mfs/file.Size()''))
       in then_do (nodelk_Unlock fi) (\<lambda>fi _. Returned fi r))"

definition GetNode :: "('p, 'd) File \<Rightarrow> (('p, 'd) File, error + node) outcome" where
  "GetNode fi =
     then_do (nodelk_Lock fi) (\<lambda>fi _.
       let r = Inr (node fi)
       in then_do (nodelk_Unlock fi) (\<lambda>fi _. Returned fi r))"

subsection \<open>Flush and Sync\<close>

text \<open>
  The descriptor's methods \<^verbatim>\<open>Flush\<close> and \<^verbatim>\<open>Close\<close> are called through the
  \<^verbatim>\<open>FileDescriptor\<close> interface; they are parameters of the model, free to change the
  File, to wait and to panic. \<open>deferred\<close> is Go's \<^verbatim>\<open>defer\<close>: the deferred call runs
  when the body returns and when it panics, and its own results are dropped.
\<close>

type_synonym ('p, 'd, 'm) fd_method =
  "'m fileDescriptor \<Rightarrow> ('p, 'd) File \<Rightarrow> (('p, 'd) File, error option) outcome"

definition deferred ::
  "('s \<Rightarrow> ('s, 'b) outcome) \<Rightarrow> ('s, 'a) outcome \<Rightarrow> ('s, 'a) outcome" where
  "deferred d body =
     (case body of
        Blocked \<Rightarrow> Blocked
      | Fatal \<Rightarrow> Fatal
      | Panicked s \<Rightarrow>
          (case d s of
             Blocked \<Rightarrow> Blocked
           | Fatal \<Rightarrow> Fatal
           | Panicked s' \<Rightarrow> Panicked s'
           | Returned s' _ \<Rightarrow> Panicked s')
      | Returned s a \<Rightarrow>
          (case d s of
             Blocked \<Rightarrow> Blocked
           | Fatal \<Rightarrow> Fatal
           | Panicked s' \<Rightarrow> Panicked s'
           | Returned s' _ \<Rightarrow> Returned s' a))"

definition Flush ::
  "decoder \<Rightarrow> ('d, 'm) constructor \<Rightarrow> ('p, 'd, 'm) fd_method \<Rightarrow> ('p, 'd, 'm) fd_method
     \<Rightarrow> ('p, 'd) File \<Rightarrow> (('p, 'd) File, error option) outcome" where
  "Flush FSNodeFromBytes NewDagModifier fd_Flush fd_Close fi =
     then_do (Open FSNodeFromBytes NewDagModifier fi OpenWriteOnly True) (\<lambda>fi r.
       case r of
         Inl err \<Rightarrow> Returned fi (Some err)
       | Inr fd \<Rightarrow> deferred (fd_Close fd) (fd_Flush fd fi))"

definition Sync :: "('p, 'd) File \<Rightarrow> (('p, 'd) File, error option) outcome" where
  "Sync fi =
     then_do (desclock_Lock fi) (\<lambda>fi _.
       then_do (desclock_Unlock fi) (\<lambda>fi _. Returned fi None))"

section \<open>Concrete collaborators and Files\<close>

text \<open>
  Stand-ins for the collaborators, to run the model on concrete Files. \<open>tag_decoder\<close>
  reads the type tag from the first byte of the payload (the numbering of go-unixfs) and
  declares the number of bytes that follow as the size; the empty payload is malformed.
  \<open>wide_decoder\<close> decodes every payload to a file that declares \<open>2 ^ 63\<close> bytes.
\<close>

definition tag_decoder :: decoder where
  "tag_decoder d =
     (case d of
        [] \<Rightarrow> Inl (Errorf ''malformed payload'')
      | t # rest \<Rightarrow>
          Inr \<lparr>Type = (if t = 0 then TRaw else if t = 1 then TDirectory
                        else if t = 2 then TFile else if t = 3 then TMetadata
                        else if t = 4 then TSymlink else THAMTShard),
               FileSize = of_nat (length rest)\<rparr>)"

definition wide_decoder :: decoder where
  "wide_decoder d = Inr \<lparr>Type = TFile, FileSize = 2 ^ 63\<rparr>"

text \<open>
  \<open>unixfs_constructor\<close> does what \<^verbatim>\<open>mod.NewDagModifier\<close> of go-unixfs does with the node:
  it refuses a node that is neither a ProtoNode nor a RawNode, and otherwise builds a
  Modifier on the node, with raw leaves when the version of the Cid prefix is not zero.
\<close>

definition unixfs_constructor :: "(unit, node) constructor" where
  "unixfs_constructor nd dserv =
     (case nd of
        OtherNode _ \<Rightarrow> Inl (Errorf ''not a unixfs node'')
      | _ \<Rightarrow> Inr \<lparr>dm_RawLeaves = (0 < Version nd), dm_state = nd\<rparr>)"

text \<open>
  The File that \<^verbatim>\<open>NewFile("f", nd, parent, dserv)\<close> returns for a node \<open>nd\<close>, with no
  descriptor open.
\<close>

definition file_on :: "node \<Rightarrow> (unit, unit) File" where
  "file_on nd =
     \<lparr>inode = \<lparr>name = ''f'', parent = (), dagService = ()\<rparr>,
      desclock = RWMutex_zero,
      node = nd,
      nodelk = Unlocked,
      RawLeaves = (0 < Version nd)\<rparr>"

text \<open>The same File while a descriptor opened for writing holds the access lock.\<close>

definition file_in_write :: "node \<Rightarrow> (unit, unit) File" where
  "file_in_write nd = (file_on nd)\<lparr>desclock := \<lparr>readerCount = 0, writer = True\<rparr>\<rparr>"

text \<open>The same File while a descriptor opened for reading holds the access lock.\<close>

definition file_in_read :: "node \<Rightarrow> (unit, unit) File" where
  "file_in_read nd = (file_on nd)\<lparr>desclock := \<lparr>readerCount = 1, writer = False\<rparr>\<rparr>"

text \<open>
  Descriptor methods for concrete runs of \<^verbatim>\<open>File.Flush\<close>: a flush that fails, one that
  panics, and a close that releases the lock class of the descriptor's mode, as the
  specification describes \<^verbatim>\<open>Close\<close>, and reports an error of its own.
\<close>

definition failing_Flush :: "(unit, unit, node) fd_method" where
  "failing_Flush fd fi = Returned fi (Some (Errorf ''flush failed''))"

definition panicking_Flush :: "(unit, unit, node) fd_method" where
  "panicking_Flush fd fi = Panicked fi"

definition releasing_Close :: "(unit, unit, node) fd_method" where
  "releasing_Close fd fi =
     (case (if perms fd = OpenReadOnly then RUnlock (desclock fi) else Unlock (desclock fi)) of
        None \<Rightarrow> Fatal
      | Some l \<Rightarrow> Returned (fi\<lparr>desclock := l\<rparr>) (Some (Errorf ''close failed'')))"

section \<open>Auxiliary facts\<close>

lemma snapshot_free: "nodelk fi = Unlocked \<Longrightarrow> snapshot fi = Returned fi (node fi)"
  by (simp add: snapshot_def nodelk_Lock_def nodelk_Unlock_def then_do_def)

lemma snapshot_held: "nodelk fi = Locked \<Longrightarrow> snapshot fi = Blocked"
  by (simp add: snapshot_def nodelk_Lock_def then_do_def)

lemma Open_free:
  "nodelk fi = Unlocked \<Longrightarrow>
   Open dec ctor fi flags sy =
     (case checkNode dec (node fi) of
        Some err \<Rightarrow> Returned fi (Inl err)
      | None \<Rightarrow> lockAndConstruct ctor fi (node fi) flags sy)"
  by (simp add: Open_def snapshot_free then_do_def)

lemma Open_held: "nodelk fi = Locked \<Longrightarrow> Open dec ctor fi flags sy = Blocked"
  by (simp add: Open_def snapshot_held then_do_def)

lemma fileShaped_checkNode: "fileShaped dec nd \<Longrightarrow> checkNode dec nd = None"
  by (auto simp: fileShaped_def checkNode_def split: node.splits sum.splits)

lemma lockAndConstruct_read:
  "lockAndConstruct ctor fi nd OpenReadOnly sy =
     (if writer (desclock fi) then Blocked
      else (let fi' = fi\<lparr>desclock := (desclock fi)\<lparr>readerCount := Suc (readerCount (desclock fi))\<rparr>\<rparr>
            in Returned fi' (newDescriptor ctor fi' nd OpenReadOnly sy)))"
  by (simp add: lockAndConstruct_def lockFor_def desclock_RLock_def RLock_def then_do_def Let_def)

lemma lockAndConstruct_write:
  "flags = OpenWriteOnly \<or> flags = OpenReadWrite \<Longrightarrow>
   lockAndConstruct ctor fi nd flags sy =
     (if writer (desclock fi) \<or> 0 < readerCount (desclock fi) then Blocked
      else (let fi' = fi\<lparr>desclock := (desclock fi)\<lparr>writer := True\<rparr>\<rparr>
            in Returned fi' (newDescriptor ctor fi' nd flags sy)))"
  by (auto simp: lockAndConstruct_def lockFor_def desclock_Lock_def Lock_def then_do_def
                 OpenReadOnly_def OpenWriteOnly_def OpenReadWrite_def Let_def)

lemma lockAndConstruct_other:
  "flags \<noteq> OpenReadOnly \<Longrightarrow> flags \<noteq> OpenWriteOnly \<Longrightarrow> flags \<noteq> OpenReadWrite \<Longrightarrow>
   lockAndConstruct ctor fi nd flags sy = Returned fi (Inl (Errorf ''mode not supported''))"
  by (simp add: lockAndConstruct_def lockFor_def then_do_def)

lemma Open_write_holds_lock:
  assumes "Open dec ctor fi0 flags sy = Returned fi r"
    and "flags = OpenWriteOnly \<or> flags = OpenReadWrite"
    and "checkNode dec (node fi0) = None"
  shows "writer (desclock fi)"
proof (cases "nodelk fi0")
  case Locked
  with assms(1) show ?thesis by (simp add: Open_held)
next
  case Unlocked
  with assms(1,3) have "lockAndConstruct ctor fi0 (node fi0) flags sy = Returned fi r"
    by (simp add: Open_free)
  then show ?thesis
    using assms(2) by (auto simp: lockAndConstruct_write Let_def split: if_splits)
qed

lemma Open_descriptor_passed_check:
  assumes "Open dec ctor fi0 flags sy = Returned fi (Inr fd)"
  shows "nodelk fi0 = Unlocked \<and> checkNode dec (node fi0) = None \<and>
         lockAndConstruct ctor fi0 (node fi0) flags sy = Returned fi (Inr fd)"
proof (cases "nodelk fi0")
  case Locked
  with assms show ?thesis by (simp add: Open_held)
next
  case Unlocked
  with assms show ?thesis by (auto simp: Open_free split: option.splits)
qed

lemma bit63: "0 \<le> k \<Longrightarrow> k < 2 ^ 64 \<Longrightarrow> bit (k::int) 63 \<longleftrightarrow> 2 ^ 63 \<le> k"
proof -
  assume a: "0 \<le> k" "k < 2 ^ 64"
  have "k div 2 ^ 63 = (if k < 2 ^ 63 then 0 else 1)"
    using a by (auto simp: div_pos_pos_trivial intro!: int_div_pos_eq[where r = "k - 2^63"])
  then show ?thesis by (simp add: bit_iff_odd)
qed

lemma int64_eq: "int64 w = (if uint w < 2 ^ 63 then uint w else uint w - 2 ^ 64)"
proof -
  have b: "0 \<le> uint w" "uint w < 2 ^ 64"
    using uint_lt2p [of w] by simp_all
  have "sint w = take_bit 64 (uint w) - 2 ^ 64 * of_bool (bit (uint w) 63)"
    by (simp add: sint_uint signed_take_bit_eq_take_bit_minus)
  also have "take_bit 64 (uint w) = uint w"
    using b by (simp add: take_bit_int_eq_self)
  finally show ?thesis
    using bit63 [OF b] by (simp add: int64_def)
qed

lemma lockFor_keeps:
  "lockFor flags fi = Returned fi' r \<Longrightarrow>
   inode fi' = inode fi \<and> node fi' = node fi \<and> nodelk fi' = nodelk fi \<and> RawLeaves fi' = RawLeaves fi"
  by (auto simp: lockFor_def desclock_RLock_def desclock_Lock_def then_do_def
           split: if_splits option.splits)

lemma lockAndConstruct_descriptor:
  assumes "lockAndConstruct ctor fi nd flags sy = Returned fi' (Inr fd)"
  shows "lockFor flags fi = Returned fi' None \<and> newDescriptor ctor fi' nd flags sy = Inr fd"
  using assms
  by (cases "lockFor flags fi")
     (auto simp: lockAndConstruct_def then_do_def split: option.splits)

lemma newDescriptor_RawLeaves:
  "newDescriptor ctor fi nd flags sy = Inr fd \<Longrightarrow>
   dm_RawLeaves (mod' fd) = RawLeaves fi \<and> perms fd = flags \<and> sync fd = sy"
  by (auto simp: newDescriptor_def Let_def split: sum.splits)

lemma Size_free:
  "nodelk fi = Unlocked \<Longrightarrow>
   Size dec fi =
     Returned fi
       (case node fi of
          ProtoNode _ d \<Rightarrow>
            (case dec d of Inl err \<Rightarrow> Inl err | Inr fsn \<Rightarrow> Inr (int64 (FileSize fsn)))
        | RawNode _ d \<Rightarrow> Inr (int (length d))
        | OtherNode _ \<Rightarrow> Inl (Errorf ''unrecognized node type in mfs/file.Size()''))"
proof -
  assume u: "nodelk fi = Unlocked"
  then have "fi\<lparr>nodelk := Unlocked\<rparr> = fi" by simp
  with u show ?thesis
    by (simp add: Size_def nodelk_Lock_def nodelk_Unlock_def then_do_def)
qed

lemma Open_constructor_error:
  assumes "nodelk fi = Unlocked" and "checkNode dec (node fi) = None"
    and "flags = OpenWriteOnly \<or> flags = OpenReadWrite"
    and "\<not> writer (desclock fi)" and "readerCount (desclock fi) = 0"
    and "ctor (node fi) (dagService (inode fi)) = Inl err"
  shows "Open dec ctor fi flags sy = Returned (fi\<lparr>desclock := (desclock fi)\<lparr>writer := True\<rparr>\<rparr>) (Inl err)"
  using assms by (simp add: Open_free lockAndConstruct_write newDescriptor_def Let_def)

lemma lockAndConstruct_keeps:
  assumes "lockAndConstruct ctor fi nd flags sy = Returned fi' r"
  shows "inode fi' = inode fi \<and> node fi' = node fi \<and> nodelk fi' = nodelk fi \<and>
         RawLeaves fi' = RawLeaves fi"
proof (cases "lockFor flags fi")
  case (Returned fi'' e)
  with assms have "fi' = fi''"
    by (simp add: lockAndConstruct_def then_do_def split: option.splits)
  with Returned lockFor_keeps [of flags fi fi'' e] show ?thesis by simp
qed (use assms in \<open>simp_all add: lockAndConstruct_def then_do_def\<close>)

lemma Open_keeps:
  assumes "Open dec ctor fi flags sy = Returned fi' r"
  shows "nodelk fi = Unlocked \<and> inode fi' = inode fi \<and> node fi' = node fi \<and>
         nodelk fi' = nodelk fi \<and> RawLeaves fi' = RawLeaves fi"
proof (cases "nodelk fi")
  case Locked
  with assms show ?thesis by (simp add: Open_held)
next
  case Unlocked
  show ?thesis
  proof (cases "checkNode dec (node fi)")
    case (Some err)
    with assms Unlocked show ?thesis by (simp add: Open_free)
  next
    case None
    with assms Unlocked have "lockAndConstruct ctor fi (node fi) flags sy = Returned fi' r"
      by (simp add: Open_free)
    from lockAndConstruct_keeps [OF this] Unlocked show ?thesis by simp
  qed
qed

lemma Open_refused:
  assumes "ctor (node fi) (dagService (inode fi)) = Inl err"
  shows "Open dec ctor fi flags sy \<noteq> Returned fi' (Inr fd)"
proof
  assume op: "Open dec ctor fi flags sy = Returned fi' (Inr fd)"
  from Open_descriptor_passed_check [OF op]
  have "lockAndConstruct ctor fi (node fi) flags sy = Returned fi' (Inr fd)" by simp
  from lockAndConstruct_descriptor [OF this]
  have l: "lockFor flags fi = Returned fi' None"
    and n: "newDescriptor ctor fi' (node fi) flags sy = Inr fd" by simp_all
  from lockFor_keeps [OF l] have "inode fi' = inode fi" by simp
  with assms n show False by (simp add: newDescriptor_def)
qed

section \<open>The properties of the specification\<close>

text \<open>
  Claim C1 does not hold of \<^verbatim>\<open>Open\<close>: when the constructor of the Modifier fails, the
  access lock taken by the switch on the mode is still held at the \<^verbatim>\<open>return nil, err\<close>
  of line 86, and no descriptor exists to release it. Here the current node is neither a
  ProtoNode nor a RawNode, which the type switch lets through and the constructor refuses:
  \<^verbatim>\<open>Open\<close> in mode WriteOnly returns the error and leaves the exclusive lock held, after
  which a valid \<^verbatim>\<open>Open\<close> and \<^verbatim>\<open>Sync\<close> wait, though \<^verbatim>\<open>Sync\<close> returned at once before.
\<close>

theorem Open_constructor_error_keeps_lock:
  "Open tag_decoder unixfs_constructor (file_on (OtherNode 1)) OpenWriteOnly False =
     Returned (file_in_write (OtherNode 1)) (Inl (Errorf ''not a unixfs node'')) \<and>
   desclock (file_on (OtherNode 1)) = \<lparr>readerCount = 0, writer = False\<rparr> \<and>
   desclock (file_in_write (OtherNode 1)) = \<lparr>readerCount = 0, writer = True\<rparr> \<and>
   Open tag_decoder unixfs_constructor (file_in_write (OtherNode 1)) OpenReadOnly False = Blocked \<and>
   Sync (file_on (OtherNode 1)) = Returned (file_on (OtherNode 1)) None \<and>
   Sync (file_in_write (OtherNode 1)) = Blocked"
  by (simp add: Open_def snapshot_def nodelk_Lock_def nodelk_Unlock_def then_do_def
                checkNode_def lockAndConstruct_def lockFor_def desclock_Lock_def Lock_def
                desclock_RLock_def RLock_def desclock_Unlock_def Unlock_def Sync_def
                newDescriptor_def unixfs_constructor_def
                file_on_def file_in_write_def
                RWMutex_zero_def OpenReadOnly_def OpenWriteOnly_def Let_def)

text \<open>
  Claim C2: on a File whose current node is a structured node, \<^verbatim>\<open>Open\<close> returns the
  decode error when the payload is malformed, the error \<^verbatim>\<open>symlinks not yet supported\<close>
  when the decoded type is Symlink, whatever the mode, and the error
  \<^verbatim>\<open>unsupported fsnode type for 'file'\<close> when the decoded type is none of File, Raw and
  Symlink; each time the File is left as it was. When the decoded type is File or Raw, and
  when the current node is a raw-leaf node, the type switch raises no error and \<^verbatim>\<open>Open\<close>
  goes on with the switch on the mode. While another holder has the node mutex the call
  waits.
\<close>

theorem Open_validates_node:
  "(nodelk fi = Locked \<longrightarrow> Open dec ctor fi flags sy = Blocked) \<and>
   (nodelk fi = Unlocked \<longrightarrow>
      (node fi = ProtoNode v d \<and> dec d = Inl err \<longrightarrow>
         Open dec ctor fi flags sy = Returned fi (Inl err)) \<and>
      (node fi = ProtoNode v d \<and> dec d = Inr fsn \<and> Type fsn = TSymlink \<longrightarrow>
         Open dec ctor fi flags sy = Returned fi (Inl (Errorf ''symlinks not yet supported''))) \<and>
      (node fi = ProtoNode v d \<and> dec d = Inr fsn \<and> Type fsn \<notin> {TFile, TRaw, TSymlink} \<longrightarrow>
         Open dec ctor fi flags sy = Returned fi (Inl (Errorf unsupported_fsnode_type))) \<and>
      (node fi = ProtoNode v d \<and> dec d = Inr fsn \<and> Type fsn \<in> {TFile, TRaw} \<longrightarrow>
         checkNode dec (node fi) = None \<and>
         Open dec ctor fi flags sy = lockAndConstruct ctor fi (node fi) flags sy) \<and>
      (node fi = RawNode v d \<longrightarrow>
         checkNode dec (node fi) = None \<and>
         Open dec ctor fi flags sy = lockAndConstruct ctor fi (node fi) flags sy))"
proof (cases "nodelk fi")
  case Locked
  then show ?thesis by (simp add: Open_held)
next
  case Unlocked
  then show ?thesis
    by (cases "Type fsn") (simp_all add: Open_free checkNode_def)
qed

theorem Open_validates_node_witness:
  "Open tag_decoder unixfs_constructor ((file_on (ProtoNode 0 [4, 7]))\<lparr>nodelk := Locked\<rparr>)
     OpenReadOnly False = Blocked \<and>
   Open tag_decoder unixfs_constructor (file_on (ProtoNode 0 [])) OpenReadOnly False =
     Returned (file_on (ProtoNode 0 [])) (Inl (Errorf ''malformed payload'')) \<and>
   Open tag_decoder unixfs_constructor (file_on (ProtoNode 0 [4, 7])) OpenReadOnly False =
     Returned (file_on (ProtoNode 0 [4, 7])) (Inl (Errorf ''symlinks not yet supported'')) \<and>
   Open tag_decoder unixfs_constructor (file_on (ProtoNode 0 [4, 7])) 7 False =
     Returned (file_on (ProtoNode 0 [4, 7])) (Inl (Errorf ''symlinks not yet supported'')) \<and>
   Open tag_decoder unixfs_constructor (file_on (ProtoNode 0 [1])) OpenReadOnly False =
     Returned (file_on (ProtoNode 0 [1])) (Inl (Errorf unsupported_fsnode_type)) \<and>
   Open tag_decoder unixfs_constructor (file_on (ProtoNode 0 [2, 7])) 7 False =
     Returned (file_on (ProtoNode 0 [2, 7])) (Inl (Errorf ''mode not supported'')) \<and>
   Open tag_decoder unixfs_constructor (file_on (RawNode 1 [5, 6])) OpenReadOnly False =
     Returned (file_in_read (RawNode 1 [5, 6]))
       (Inr \<lparr>perms = OpenReadOnly, sync = False,
             mod' = \<lparr>dm_RawLeaves = True, dm_state = RawNode 1 [5, 6]\<rparr>\<rparr>)"
  using Open_validates_node [where fi = "(file_on (ProtoNode 0 [4, 7]))\<lparr>nodelk := Locked\<rparr>"
            and v = 0 and d = "[4, 7]"
            and dec = tag_decoder and fsn = "\<lparr>Type = TSymlink, FileSize = 1\<rparr>"
            and ctor = unixfs_constructor and flags = OpenReadOnly and sy = False]
        Open_validates_node [where fi = "file_on (ProtoNode 0 [])" and v = 0 and d = "[]"
            and dec = tag_decoder and err = "Errorf ''malformed payload''"
            and ctor = unixfs_constructor and flags = OpenReadOnly and sy = False]
        Open_validates_node [where fi = "file_on (ProtoNode 0 [4, 7])" and v = 0 and d = "[4, 7]"
            and dec = tag_decoder and fsn = "\<lparr>Type = TSymlink, FileSize = 1\<rparr>"
            and ctor = unixfs_constructor and flags = OpenReadOnly and sy = False]
        Open_validates_node [where fi = "file_on (ProtoNode 0 [4, 7])" and v = 0 and d = "[4, 7]"
            and dec = tag_decoder and fsn = "\<lparr>Type = TSymlink, FileSize = 1\<rparr>"
            and ctor = unixfs_constructor and flags = 7 and sy = False]
        Open_validates_node [where fi = "file_on (ProtoNode 0 [1])" and v = 0 and d = "[1]"
            and dec = tag_decoder and fsn = "\<lparr>Type = TDirectory, FileSize = 0\<rparr>"
            and ctor = unixfs_constructor and flags = OpenReadOnly and sy = False]
        Open_validates_node [where fi = "file_on (ProtoNode 0 [2, 7])" and v = 0 and d = "[2, 7]"
            and dec = tag_decoder and fsn = "\<lparr>Type = TFile, FileSize = 1\<rparr>"
            and ctor = unixfs_constructor and flags = 7 and sy = False]
        Open_validates_node [where fi = "file_on (RawNode 1 [5, 6])" and v = 1 and d = "[5, 6]"
            and dec = tag_decoder and ctor = unixfs_constructor and flags = OpenReadOnly
            and sy = False]
  by (simp add: file_on_def file_in_read_def tag_decoder_def unixfs_constructor_def
                lockAndConstruct_def lockFor_def desclock_RLock_def RLock_def then_do_def
                newDescriptor_def RWMutex_zero_def OpenReadOnly_def OpenWriteOnly_def
                OpenReadWrite_def Let_def)

text \<open>
  Claim C3: on a File with a file-shaped current node, \<^verbatim>\<open>Open\<close> with mode ReadOnly
  takes the shared access lock (it waits while a writer holds the lock); with mode
  WriteOnly or ReadWrite it takes the exclusive access lock (it waits while anyone holds
  the lock); with any other mode it returns the error \<^verbatim>\<open>mode not supported\<close> and leaves
  the File, and so its access lock, as it was: a later call finds the state it would have
  found before. While another holder has the node mutex the call waits.
\<close>

theorem Open_takes_lock_of_mode:
  assumes "fileShaped dec (node fi)"
  shows "(nodelk fi = Locked \<longrightarrow> Open dec ctor fi flags sy = Blocked) \<and>
         (nodelk fi = Unlocked \<longrightarrow>
            (flags = OpenReadOnly \<longrightarrow>
               Open dec ctor fi flags sy =
                 (if writer (desclock fi) then Blocked
                  else (let fi' = fi\<lparr>desclock := (desclock fi)\<lparr>readerCount := Suc (readerCount (desclock fi))\<rparr>\<rparr>
                        in Returned fi' (newDescriptor ctor fi' (node fi) flags sy)))) \<and>
            (flags = OpenWriteOnly \<or> flags = OpenReadWrite \<longrightarrow>
               Open dec ctor fi flags sy =
                 (if writer (desclock fi) \<or> 0 < readerCount (desclock fi) then Blocked
                  else (let fi' = fi\<lparr>desclock := (desclock fi)\<lparr>writer := True\<rparr>\<rparr>
                        in Returned fi' (newDescriptor ctor fi' (node fi) flags sy)))) \<and>
            (flags \<noteq> OpenReadOnly \<and> flags \<noteq> OpenWriteOnly \<and> flags \<noteq> OpenReadWrite \<longrightarrow>
               Open dec ctor fi flags sy = Returned fi (Inl (Errorf ''mode not supported''))))"
proof (cases "nodelk fi")
  case Locked
  then show ?thesis by (simp add: Open_held)
next
  case Unlocked
  have o: "Open dec ctor fi flags sy = lockAndConstruct ctor fi (node fi) flags sy"
    using assms Unlocked by (simp add: Open_free fileShaped_checkNode)
  have "nodelk fi \<noteq> Locked"
    using Unlocked by simp
  then show ?thesis
    unfolding o
    using lockAndConstruct_read [of ctor fi "node fi" sy]
          lockAndConstruct_write [of flags ctor fi "node fi" sy]
          lockAndConstruct_other [of flags ctor fi "node fi" sy]
    by blast
qed

theorem Open_takes_lock_of_mode_witness:
  "Open tag_decoder unixfs_constructor (file_on (RawNode 1 [5, 6])) OpenReadOnly False =
     Returned (file_in_read (RawNode 1 [5, 6]))
       (Inr \<lparr>perms = OpenReadOnly, sync = False,
             mod' = \<lparr>dm_RawLeaves = True, dm_state = RawNode 1 [5, 6]\<rparr>\<rparr>) \<and>
   Open tag_decoder unixfs_constructor (file_in_write (RawNode 1 [5, 6])) OpenReadOnly False = Blocked \<and>
   Open tag_decoder unixfs_constructor (file_on (ProtoNode 0 [2, 7])) OpenWriteOnly True =
     Returned (file_in_write (ProtoNode 0 [2, 7]))
       (Inr \<lparr>perms = OpenWriteOnly, sync = True,
             mod' = \<lparr>dm_RawLeaves = False, dm_state = ProtoNode 0 [2, 7]\<rparr>\<rparr>) \<and>
   Open tag_decoder unixfs_constructor (file_in_read (ProtoNode 0 [2, 7])) OpenReadWrite True = Blocked \<and>
   Open tag_decoder unixfs_constructor (file_in_write (RawNode 1 [5, 6])) 3 False =
     Returned (file_in_write (RawNode 1 [5, 6])) (Inl (Errorf ''mode not supported'')) \<and>
   Open tag_decoder unixfs_constructor ((file_on (RawNode 1 [5, 6]))\<lparr>nodelk := Locked\<rparr>) 3 False =
     Blocked"
proof -
  have r: "fileShaped tag_decoder (node (file_on (RawNode 1 [5, 6])))"
    "fileShaped tag_decoder (node (file_in_write (RawNode 1 [5, 6])))"
    "fileShaped tag_decoder (node (file_on (ProtoNode 0 [2, 7])))"
    "fileShaped tag_decoder (node (file_in_read (ProtoNode 0 [2, 7])))"
    "fileShaped tag_decoder (node ((file_on (RawNode 1 [5, 6]))\<lparr>nodelk := Locked\<rparr>))"
    by (simp_all add: fileShaped_def tag_decoder_def file_on_def file_in_write_def file_in_read_def)
  show ?thesis
    using Open_takes_lock_of_mode [OF r(1), of unixfs_constructor OpenReadOnly False]
          Open_takes_lock_of_mode [OF r(2), of unixfs_constructor OpenReadOnly False]
          Open_takes_lock_of_mode [OF r(3), of unixfs_constructor OpenWriteOnly True]
          Open_takes_lock_of_mode [OF r(4), of unixfs_constructor OpenReadWrite True]
          Open_takes_lock_of_mode [OF r(2), of unixfs_constructor 3 False]
          Open_takes_lock_of_mode [OF r(5), of unixfs_constructor 3 False]
    by (simp add: file_on_def file_in_read_def file_in_write_def unixfs_constructor_def
                  newDescriptor_def RWMutex_zero_def OpenReadOnly_def OpenWriteOnly_def
                  OpenReadWrite_def Let_def)
qed

text \<open>
  Claim C4, as it is written, fails for a structured node that declares a size of
  \<open>2 ^ 63\<close> or more: \<^verbatim>\<open>Size\<close> returns \<^verbatim>\<open>int64(fsn.FileSize())\<close>, and the conversion of
  the \<^verbatim>\<open>uint64\<close> wraps. A payload that declares \<open>2 ^ 63\<close> bytes gives \<open>- 2 ^ 63\<close>.
\<close>

theorem Size_wide_counterexample:
  "wide_decoder [] = Inr \<lparr>Type = TFile, FileSize = 2 ^ 63\<rparr> \<and>
   uint (2 ^ 63 :: uint64) = 9223372036854775808 \<and>
   Size wide_decoder (file_on (ProtoNode 0 [])) =
     Returned (file_on (ProtoNode 0 [])) (Inr (- 9223372036854775808)) \<and>
   Size wide_decoder (file_on (ProtoNode 0 [])) \<noteq>
     Returned (file_on (ProtoNode 0 [])) (Inr 9223372036854775808)"
  by (simp add: Size_def wide_decoder_def file_on_def nodelk_Lock_def nodelk_Unlock_def
                then_do_def int64_def)

text \<open>
  Claim C4, amended: while the node mutex is free, \<^verbatim>\<open>Size\<close> returns and leaves the File
  as it was. For a structured node it returns the decode error of a malformed payload,
  and otherwise the declared size converted to \<^verbatim>\<open>int64\<close>: the declared size when that
  is below \<open>2 ^ 63\<close>, the declared size less \<open>2 ^ 64\<close> otherwise. For a raw-leaf node
  it returns the number of bytes of the raw data, and for any other node kind the error
  \<^verbatim>\<open>unrecognized node type in mfs/file.Size()\<close>. While the node mutex is held the call
  waits.
\<close>

theorem Size_returns_int64:
  "Size dec fi =
     (if nodelk fi = Unlocked then
        Returned fi
          (case node fi of
             ProtoNode _ d \<Rightarrow>
               (case dec d of
                  Inl err \<Rightarrow> Inl err
                | Inr fsn \<Rightarrow>
                    Inr (if uint (FileSize fsn) < 2 ^ 63 then uint (FileSize fsn)
                         else uint (FileSize fsn) - 2 ^ 64))
           | RawNode _ d \<Rightarrow> Inr (int (length d))
           | OtherNode _ \<Rightarrow> Inl (Errorf ''unrecognized node type in mfs/file.Size()''))
      else Blocked)"
proof (cases "nodelk fi")
  case Locked
  then show ?thesis by (simp add: Size_def nodelk_Lock_def then_do_def)
next
  case Unlocked
  then have "fi\<lparr>nodelk := Unlocked\<rparr> = fi" by simp
  with Unlocked show ?thesis
    by (simp add: Size_def nodelk_Lock_def nodelk_Unlock_def then_do_def int64_eq
             split: node.splits sum.splits)
qed

theorem Size_returns_int64_witness:
  "Size tag_decoder (file_on (ProtoNode 0 [2, 7, 7, 7])) =
     Returned (file_on (ProtoNode 0 [2, 7, 7, 7])) (Inr 3) \<and>
   Size tag_decoder (file_on (ProtoNode 0 [])) =
     Returned (file_on (ProtoNode 0 [])) (Inl (Errorf ''malformed payload'')) \<and>
   Size tag_decoder (file_on (RawNode 1 [5, 6])) = Returned (file_on (RawNode 1 [5, 6])) (Inr 2) \<and>
   Size tag_decoder (file_on (OtherNode 1)) =
     Returned (file_on (OtherNode 1)) (Inl (Errorf ''unrecognized node type in mfs/file.Size()'')) \<and>
   Size tag_decoder ((file_on (RawNode 1 [5, 6]))\<lparr>nodelk := Locked\<rparr>) = Blocked"
  using Size_returns_int64 [of tag_decoder "file_on (ProtoNode 0 [2, 7, 7, 7])"]
        Size_returns_int64 [of tag_decoder "file_on (ProtoNode 0 [])"]
        Size_returns_int64 [of tag_decoder "file_on (RawNode 1 [5, 6])"]
        Size_returns_int64 [of tag_decoder "file_on (OtherNode 1)"]
        Size_returns_int64 [of tag_decoder "(file_on (RawNode 1 [5, 6]))\<lparr>nodelk := Locked\<rparr>"]
  by (simp add: file_on_def tag_decoder_def)

text \<open>
  Claim C5: \<^verbatim>\<open>Sync\<close> takes the exclusive access lock and releases it at once. It returns
  exactly when nobody holds the access lock, then with a nil error and the File as it was;
  otherwise it waits. In the state that a successful \<^verbatim>\<open>Open\<close> in a write mode leaves,
  \<^verbatim>\<open>Sync\<close> does not return.
\<close>

theorem Sync_is_barrier:
  "Sync fi = (if writer (desclock fi) \<or> 0 < readerCount (desclock fi) then Blocked
              else Returned fi None) \<and>
   ((flags = OpenWriteOnly \<or> flags = OpenReadWrite) \<and>
      Open dec ctor fi0 flags sy = Returned fi (Inr fd) \<longrightarrow> Sync fi = Blocked)"
proof -
  have s: "Sync fi = (if writer (desclock fi) \<or> 0 < readerCount (desclock fi) then Blocked
              else Returned fi None)"
    by (simp add: Sync_def desclock_Lock_def desclock_Unlock_def Lock_def Unlock_def then_do_def)
  have "Sync fi = Blocked"
    if "flags = OpenWriteOnly \<or> flags = OpenReadWrite"
      and "Open dec ctor fi0 flags sy = Returned fi (Inr fd)"
    using Open_write_holds_lock [OF that(2) that(1)] Open_descriptor_passed_check [OF that(2)]
    by (simp add: s)
  with s show ?thesis by blast
qed

theorem Sync_is_barrier_witness:
  "Sync (file_on (RawNode 1 [5, 6])) = Returned (file_on (RawNode 1 [5, 6])) None \<and>
   Open tag_decoder unixfs_constructor (file_on (RawNode 1 [5, 6])) OpenWriteOnly False =
     Returned (file_in_write (RawNode 1 [5, 6]))
       (Inr \<lparr>perms = OpenWriteOnly, sync = False,
             mod' = \<lparr>dm_RawLeaves = True, dm_state = RawNode 1 [5, 6]\<rparr>\<rparr>) \<and>
   Sync (file_in_write (RawNode 1 [5, 6])) = Blocked"
proof -
  have o: "Open tag_decoder unixfs_constructor (file_on (RawNode 1 [5, 6])) OpenWriteOnly False =
     Returned (file_in_write (RawNode 1 [5, 6]))
       (Inr \<lparr>perms = OpenWriteOnly, sync = False,
             mod' = \<lparr>dm_RawLeaves = True, dm_state = RawNode 1 [5, 6]\<rparr>\<rparr>)"
    by (simp add: Open_def snapshot_def nodelk_Lock_def nodelk_Unlock_def then_do_def
                  checkNode_def lockAndConstruct_def lockFor_def desclock_Lock_def Lock_def
                  newDescriptor_def unixfs_constructor_def file_on_def file_in_write_def
                  RWMutex_zero_def OpenReadOnly_def OpenWriteOnly_def Let_def)
  have "Sync (file_in_write (RawNode 1 [5, 6])) = Blocked"
    using Sync_is_barrier [where fi = "file_in_write (RawNode 1 [5, 6])" and flags = OpenWriteOnly
            and dec = tag_decoder and ctor = unixfs_constructor
            and ?fi0.0 = "file_on (RawNode 1 [5, 6])" and sy = False
            and fd = "\<lparr>perms = OpenWriteOnly, sync = False,
                       mod' = \<lparr>dm_RawLeaves = True, dm_state = RawNode 1 [5, 6]\<rparr>\<rparr>"] o
    by blast
  moreover have "Sync (file_on (RawNode 1 [5, 6])) = Returned (file_on (RawNode 1 [5, 6])) None"
    using Sync_is_barrier [where fi = "file_on (RawNode 1 [5, 6])" and flags = OpenReadOnly
            and dec = tag_decoder and ctor = unixfs_constructor
            and ?fi0.0 = "file_on (RawNode 1 [5, 6])" and sy = False
            and fd = "\<lparr>perms = OpenReadOnly, sync = False,
                       mod' = \<lparr>dm_RawLeaves = True, dm_state = RawNode 1 [5, 6]\<rparr>\<rparr>"]
    by (simp add: file_on_def RWMutex_zero_def)
  ultimately show ?thesis using o by simp
qed

text \<open>
  Claim C6: \<^verbatim>\<open>File.Flush\<close> opens a descriptor with mode WriteOnly and full sync. When
  that \<^verbatim>\<open>Open\<close> waits, so does \<^verbatim>\<open>Flush\<close>; when it fails, \<^verbatim>\<open>Flush\<close> returns its error
  and calls neither method of a descriptor. Otherwise \<^verbatim>\<open>Flush\<close> calls the descriptor's
  \<^verbatim>\<open>Flush\<close> and then its \<^verbatim>\<open>Close\<close>, on the return path and on the panic path alike,
  and returns what the descriptor's \<^verbatim>\<open>Flush\<close> returned, whatever \<^verbatim>\<open>Close\<close> returns.
\<close>

theorem Flush_opens_flushes_closes:
  "(Open dec ctor fi OpenWriteOnly True = Blocked \<longrightarrow>
      Flush dec ctor fdFlush fdClose fi = Blocked) \<and>
   (Open dec ctor fi OpenWriteOnly True = Returned fi1 (Inl err) \<longrightarrow>
      Flush dec ctor fdFlush fdClose fi = Returned fi1 (Some err)) \<and>
   (Open dec ctor fi OpenWriteOnly True = Returned fi1 (Inr fd) \<and>
    fdFlush fd fi1 = Returned fi2 r \<and> fdClose fd fi2 = Returned fi3 c \<longrightarrow>
      Flush dec ctor fdFlush fdClose fi = Returned fi3 r) \<and>
   (Open dec ctor fi OpenWriteOnly True = Returned fi1 (Inr fd) \<and>
    fdFlush fd fi1 = Panicked fi2 \<and> fdClose fd fi2 = Returned fi3 c \<longrightarrow>
      Flush dec ctor fdFlush fdClose fi = Panicked fi3)"
  by (simp add: Flush_def then_do_def deferred_def)

theorem Flush_opens_flushes_closes_witness:
  "Flush tag_decoder unixfs_constructor failing_Flush releasing_Close (file_in_read (RawNode 1 [5, 6])) =
     Blocked \<and>
   Flush tag_decoder unixfs_constructor failing_Flush releasing_Close (file_on (ProtoNode 0 [4, 7])) =
     Returned (file_on (ProtoNode 0 [4, 7])) (Some (Errorf ''symlinks not yet supported'')) \<and>
   Flush tag_decoder unixfs_constructor failing_Flush releasing_Close (file_on (RawNode 1 [5, 6])) =
     Returned (file_on (RawNode 1 [5, 6])) (Some (Errorf ''flush failed'')) \<and>
   Flush tag_decoder unixfs_constructor panicking_Flush releasing_Close (file_on (RawNode 1 [5, 6])) =
     Panicked (file_on (RawNode 1 [5, 6]))"
proof -
  let ?fd = "\<lparr>perms = OpenWriteOnly, sync = True,
              mod' = \<lparr>dm_RawLeaves = True, dm_state = RawNode 1 [5, 6]\<rparr>\<rparr>"
  have o1: "Open tag_decoder unixfs_constructor (file_in_read (RawNode 1 [5, 6])) OpenWriteOnly True =
            Blocked"
    by (simp add: Open_def snapshot_def nodelk_Lock_def nodelk_Unlock_def then_do_def
                  checkNode_def lockAndConstruct_def lockFor_def desclock_Lock_def Lock_def
                  file_on_def file_in_read_def OpenReadOnly_def OpenWriteOnly_def)
  have o2: "Open tag_decoder unixfs_constructor (file_on (ProtoNode 0 [4, 7])) OpenWriteOnly True =
            Returned (file_on (ProtoNode 0 [4, 7])) (Inl (Errorf ''symlinks not yet supported''))"
    by (simp add: Open_def snapshot_def nodelk_Lock_def nodelk_Unlock_def then_do_def
                  checkNode_def tag_decoder_def file_on_def)
  have o3: "Open tag_decoder unixfs_constructor (file_on (RawNode 1 [5, 6])) OpenWriteOnly True =
            Returned (file_in_write (RawNode 1 [5, 6])) (Inr ?fd)"
    by (simp add: Open_def snapshot_def nodelk_Lock_def nodelk_Unlock_def then_do_def
                  checkNode_def lockAndConstruct_def lockFor_def desclock_Lock_def Lock_def
                  newDescriptor_def unixfs_constructor_def file_on_def file_in_write_def
                  RWMutex_zero_def OpenReadOnly_def OpenWriteOnly_def Let_def)
  have f: "failing_Flush ?fd (file_in_write (RawNode 1 [5, 6])) =
           Returned (file_in_write (RawNode 1 [5, 6])) (Some (Errorf ''flush failed''))"
    by (simp add: failing_Flush_def)
  have p: "panicking_Flush ?fd (file_in_write (RawNode 1 [5, 6])) =
           Panicked (file_in_write (RawNode 1 [5, 6]))"
    by (simp add: panicking_Flush_def)
  have c: "releasing_Close ?fd (file_in_write (RawNode 1 [5, 6])) =
           Returned (file_on (RawNode 1 [5, 6])) (Some (Errorf ''close failed''))"
    by (simp add: releasing_Close_def Unlock_def file_in_write_def file_on_def RWMutex_zero_def
                  OpenReadOnly_def OpenWriteOnly_def)
  have "Flush tag_decoder unixfs_constructor failing_Flush releasing_Close
          (file_in_read (RawNode 1 [5, 6])) = Blocked"
    using Flush_opens_flushes_closes [where dec = tag_decoder and ctor = unixfs_constructor
            and fi = "file_in_read (RawNode 1 [5, 6])" and fdFlush = failing_Flush
            and fdClose = releasing_Close and ?fi1.0 = "file_on (RawNode 1 [5, 6])"
            and ?fi2.0 = "file_on (RawNode 1 [5, 6])" and ?fi3.0 = "file_on (RawNode 1 [5, 6])"
            and err = "Errorf ''flush failed''" and fd = ?fd and r = None and c = None]
    by (simp add: o1)
  moreover
  have "Flush tag_decoder unixfs_constructor failing_Flush releasing_Close
          (file_on (ProtoNode 0 [4, 7])) =
        Returned (file_on (ProtoNode 0 [4, 7])) (Some (Errorf ''symlinks not yet supported''))"
    using Flush_opens_flushes_closes [where dec = tag_decoder and ctor = unixfs_constructor
            and fi = "file_on (ProtoNode 0 [4, 7])" and fdFlush = failing_Flush
            and fdClose = releasing_Close and ?fi1.0 = "file_on (ProtoNode 0 [4, 7])"
            and ?fi2.0 = "file_on (RawNode 1 [5, 6])" and ?fi3.0 = "file_on (RawNode 1 [5, 6])"
            and err = "Errorf ''symlinks not yet supported''" and fd = ?fd and r = None and c = None]
    by (simp add: o2)
  moreover
  have "Flush tag_decoder unixfs_constructor failing_Flush releasing_Close
          (file_on (RawNode 1 [5, 6])) =
        Returned (file_on (RawNode 1 [5, 6])) (Some (Errorf ''flush failed''))"
    using Flush_opens_flushes_closes [where dec = tag_decoder and ctor = unixfs_constructor
            and fi = "file_on (RawNode 1 [5, 6])" and fdFlush = failing_Flush
            and fdClose = releasing_Close and ?fi1.0 = "file_in_write (RawNode 1 [5, 6])"
            and ?fi2.0 = "file_in_write (RawNode 1 [5, 6])" and ?fi3.0 = "file_on (RawNode 1 [5, 6])"
            and err = "Errorf ''flush failed''" and fd = ?fd
            and r = "Some (Errorf ''flush failed'')" and c = "Some (Errorf ''close failed'')"]
    by (simp add: o3 f c)
  moreover
  have "Flush tag_decoder unixfs_constructor panicking_Flush releasing_Close
          (file_on (RawNode 1 [5, 6])) =
        Panicked (file_on (RawNode 1 [5, 6]))"
    using Flush_opens_flushes_closes [where dec = tag_decoder and ctor = unixfs_constructor
            and fi = "file_on (RawNode 1 [5, 6])" and fdFlush = panicking_Flush
            and fdClose = releasing_Close and ?fi1.0 = "file_in_write (RawNode 1 [5, 6])"
            and ?fi2.0 = "file_in_write (RawNode 1 [5, 6])" and ?fi3.0 = "file_on (RawNode 1 [5, 6])"
            and err = "Errorf ''flush failed''" and fd = ?fd
            and r = "Some (Errorf ''flush failed'')" and c = "Some (Errorf ''close failed'')"]
    by (simp add: o3 p c)
  ultimately show ?thesis by simp
qed

text \<open>
  Claim C7: the File that \<^verbatim>\<open>NewFile\<close> returns has \<^verbatim>\<open>RawLeaves\<close> set exactly when the
  version of the node's Cid prefix is greater than zero, and the Modifier of every
  descriptor that \<^verbatim>\<open>Open\<close> returns carries the \<^verbatim>\<open>RawLeaves\<close> of the File, whatever the
  constructor had put there.
\<close>

theorem RawLeaves_from_version_into_Modifier:
  "(\<exists>fi. NewFile nm (Some nd) par dserv = Returned () (Inr fi) \<and>
         (RawLeaves fi \<longleftrightarrow> 0 < Version nd)) \<and>
   (Open dec ctor f flags sy = Returned f' (Inr fd) \<longrightarrow> dm_RawLeaves (mod' fd) = RawLeaves f)"
proof -
  have "dm_RawLeaves (mod' fd) = RawLeaves f"
    if o: "Open dec ctor f flags sy = Returned f' (Inr fd)"
  proof -
    from Open_descriptor_passed_check [OF o]
    have "lockAndConstruct ctor f (node f) flags sy = Returned f' (Inr fd)" by simp
    from lockAndConstruct_descriptor [OF this]
    show ?thesis
      using lockFor_keeps [of flags f f' None] newDescriptor_RawLeaves [of ctor f' "node f" flags sy fd]
      by simp
  qed
  then show ?thesis by (simp add: NewFile_def Let_def)
qed

theorem RawLeaves_from_version_into_Modifier_witness:
  "(\<exists>fi. NewFile ''f'' (Some (RawNode 1 [5, 6])) () () = Returned () (Inr fi) \<and>
         (RawLeaves fi \<longleftrightarrow> 0 < (1 :: uint64))) \<and>
   (\<exists>fi. NewFile ''f'' (Some (ProtoNode 0 [2, 7])) () () = Returned () (Inr fi) \<and>
         (RawLeaves fi \<longleftrightarrow> 0 < (0 :: uint64))) \<and>
   unixfs_constructor (ProtoNode 0 [2, 7]) () =
     Inr \<lparr>dm_RawLeaves = False, dm_state = ProtoNode 0 [2, 7]\<rparr> \<and>
   Open tag_decoder unixfs_constructor ((file_on (ProtoNode 0 [2, 7]))\<lparr>RawLeaves := True\<rparr>)
       OpenReadOnly False =
     Returned ((file_in_read (ProtoNode 0 [2, 7]))\<lparr>RawLeaves := True\<rparr>)
       (Inr \<lparr>perms = OpenReadOnly, sync = False,
             mod' = \<lparr>dm_RawLeaves = True, dm_state = ProtoNode 0 [2, 7]\<rparr>\<rparr>) \<and>
   dm_RawLeaves (mod' \<lparr>perms = OpenReadOnly, sync = False,
             mod' = \<lparr>dm_RawLeaves = True, dm_state = ProtoNode 0 [2, 7]\<rparr>\<rparr>) =
     RawLeaves ((file_on (ProtoNode 0 [2, 7]))\<lparr>RawLeaves := True\<rparr>)"
proof -
  have o: "Open tag_decoder unixfs_constructor ((file_on (ProtoNode 0 [2, 7]))\<lparr>RawLeaves := True\<rparr>)
       OpenReadOnly False =
     Returned ((file_in_read (ProtoNode 0 [2, 7]))\<lparr>RawLeaves := True\<rparr>)
       (Inr \<lparr>perms = OpenReadOnly, sync = False,
             mod' = \<lparr>dm_RawLeaves = True, dm_state = ProtoNode 0 [2, 7]\<rparr>\<rparr>)"
    by (simp add: Open_def snapshot_def nodelk_Lock_def nodelk_Unlock_def then_do_def
                  checkNode_def tag_decoder_def lockAndConstruct_def lockFor_def
                  desclock_RLock_def RLock_def
                  newDescriptor_def unixfs_constructor_def file_on_def file_in_read_def
                  RWMutex_zero_def OpenReadOnly_def Let_def)
  show ?thesis
    using o
      RawLeaves_from_version_into_Modifier [where nm = "''f''" and nd = "RawNode 1 [5, 6]"
        and par = "()" and dserv = "()" and dec = tag_decoder and ctor = unixfs_constructor
        and f = "(file_on (ProtoNode 0 [2, 7]))\<lparr>RawLeaves := True\<rparr>"
        and flags = OpenReadOnly and sy = False
        and f' = "(file_in_read (ProtoNode 0 [2, 7]))\<lparr>RawLeaves := True\<rparr>"
        and fd = "\<lparr>perms = OpenReadOnly, sync = False,
             mod' = \<lparr>dm_RawLeaves = True, dm_state = ProtoNode 0 [2, 7]\<rparr>\<rparr>"]
      RawLeaves_from_version_into_Modifier [where nm = "''f''" and nd = "ProtoNode 0 [2, 7]"
        and par = "()" and dserv = "()" and dec = tag_decoder and ctor = unixfs_constructor
        and f = "(file_on (ProtoNode 0 [2, 7]))\<lparr>RawLeaves := True\<rparr>"
        and flags = OpenReadOnly and sy = False
        and f' = "(file_in_read (ProtoNode 0 [2, 7]))\<lparr>RawLeaves := True\<rparr>"
        and fd = "\<lparr>perms = OpenReadOnly, sync = False,
             mod' = \<lparr>dm_RawLeaves = True, dm_state = ProtoNode 0 [2, 7]\<rparr>\<rparr>"]
    by (simp add: unixfs_constructor_def)
qed

text \<open>
  Claim C8: \<^verbatim>\<open>GetNode\<close> returns the current node of the File and a nil error, and
  leaves the File as it was; no state of the File makes it return an error, panic or stop
  the program. While another holder has the node mutex the call waits for it.
\<close>

theorem GetNode_returns_node:
  "GetNode fi = (if nodelk fi = Unlocked then Returned fi (Inr (node fi)) else Blocked)"
  by (cases "nodelk fi") (simp_all add: GetNode_def nodelk_Lock_def nodelk_Unlock_def then_do_def)

theorem GetNode_returns_node_witness:
  "GetNode (file_on (RawNode 1 [5, 6])) = Returned (file_on (RawNode 1 [5, 6])) (Inr (RawNode 1 [5, 6]))"
  using GetNode_returns_node [of "file_on (RawNode 1 [5, 6])"]
  by (simp add: file_on_def)

text \<open>
  Claim C9, as it is written, fails where it says that the File was successfully opened:
  a constructor that refuses a node that is neither a ProtoNode nor a RawNode, as
  \<^verbatim>\<open>mod.NewDagModifier\<close> does, makes \<^verbatim>\<open>Open\<close> return its error in each of the three modes
  (with the lock taken), and the error \<^verbatim>\<open>mode not supported\<close> in any other mode. No File
  of such a node, in no state of its locks, is opened with a descriptor.
\<close>

theorem Open_other_node_counterexample:
  "Open tag_decoder unixfs_constructor (file_on (OtherNode 1)) OpenReadOnly False =
     Returned (file_in_read (OtherNode 1)) (Inl (Errorf ''not a unixfs node'')) \<and>
   Open tag_decoder unixfs_constructor (file_on (OtherNode 1)) OpenWriteOnly False =
     Returned (file_in_write (OtherNode 1)) (Inl (Errorf ''not a unixfs node'')) \<and>
   Open tag_decoder unixfs_constructor (file_on (OtherNode 1)) OpenReadWrite False =
     Returned (file_in_write (OtherNode 1)) (Inl (Errorf ''not a unixfs node'')) \<and>
   Open tag_decoder unixfs_constructor (file_on (OtherNode 1)) 3 False =
     Returned (file_on (OtherNode 1)) (Inl (Errorf ''mode not supported'')) \<and>
   \<not> (\<exists>fi v flags sy fi' fd.
         node fi = OtherNode v \<and>
         Open tag_decoder unixfs_constructor fi flags sy = Returned fi' (Inr fd))"
proof -
  have "Open tag_decoder unixfs_constructor fi flags sy \<noteq> Returned fi' (Inr fd)"
    if "node fi = OtherNode v" for fi v flags sy fi' fd
    by (rule Open_refused [where err = "Errorf ''not a unixfs node''"])
       (simp add: that unixfs_constructor_def)
  then have n: "\<not> (\<exists>fi v flags sy fi' fd.
         node fi = OtherNode v \<and>
         Open tag_decoder unixfs_constructor fi flags sy = Returned fi' (Inr fd))"
    by blast
  have "Open tag_decoder unixfs_constructor (file_on (OtherNode 1)) OpenReadOnly False =
     Returned (file_in_read (OtherNode 1)) (Inl (Errorf ''not a unixfs node'')) \<and>
   Open tag_decoder unixfs_constructor (file_on (OtherNode 1)) OpenWriteOnly False =
     Returned (file_in_write (OtherNode 1)) (Inl (Errorf ''not a unixfs node'')) \<and>
   Open tag_decoder unixfs_constructor (file_on (OtherNode 1)) OpenReadWrite False =
     Returned (file_in_write (OtherNode 1)) (Inl (Errorf ''not a unixfs node'')) \<and>
   Open tag_decoder unixfs_constructor (file_on (OtherNode 1)) 3 False =
     Returned (file_on (OtherNode 1)) (Inl (Errorf ''mode not supported''))"
    by (simp add: Open_def snapshot_def nodelk_Lock_def nodelk_Unlock_def then_do_def
                  checkNode_def lockAndConstruct_def lockFor_def desclock_Lock_def Lock_def
                  desclock_RLock_def RLock_def newDescriptor_def unixfs_constructor_def
                  file_on_def file_in_write_def file_in_read_def
                  RWMutex_zero_def OpenReadOnly_def OpenWriteOnly_def OpenReadWrite_def Let_def)
  with n show ?thesis by blast
qed

text \<open>
  Claim C9, amended: for every current node that is neither a ProtoNode nor a RawNode the
  type switch of \<^verbatim>\<open>Open\<close> checks nothing: \<^verbatim>\<open>Open\<close> goes on to the switch on the mode, takes
  the lock of a valid mode and calls the constructor of the Modifier, whose result is the
  result of \<^verbatim>\<open>Open\<close>; where the constructor refuses the node, \<^verbatim>\<open>Open\<close> returns no
  descriptor. \<^verbatim>\<open>Size\<close> on such a File returns the error
  \<^verbatim>\<open>unrecognized node type in mfs/file.Size()\<close>, before the call of \<^verbatim>\<open>Open\<close> and after it
  has returned: that branch of \<^verbatim>\<open>Size\<close> is reachable for a File that has passed the type
  switch of \<^verbatim>\<open>Open\<close>. While another holder has the node mutex the calls wait.
\<close>

theorem Open_admits_other_nodes:
  assumes "node fi = OtherNode v"
  shows "checkNode dec (node fi) = None \<and>
         (nodelk fi = Locked \<longrightarrow> Open dec ctor fi flags sy = Blocked) \<and>
         (nodelk fi = Unlocked \<longrightarrow>
            Open dec ctor fi flags sy = lockAndConstruct ctor fi (node fi) flags sy) \<and>
         (nodelk fi = Unlocked \<and> flags = OpenReadOnly \<and> \<not> writer (desclock fi) \<longrightarrow>
            Open dec ctor fi flags sy =
              (let fi' = fi\<lparr>desclock := (desclock fi)\<lparr>readerCount := Suc (readerCount (desclock fi))\<rparr>\<rparr>
               in Returned fi' (newDescriptor ctor fi' (node fi) flags sy))) \<and>
         (nodelk fi = Unlocked \<and> (flags = OpenWriteOnly \<or> flags = OpenReadWrite) \<and>
            \<not> writer (desclock fi) \<and> readerCount (desclock fi) = 0 \<longrightarrow>
            Open dec ctor fi flags sy =
              (let fi' = fi\<lparr>desclock := (desclock fi)\<lparr>writer := True\<rparr>\<rparr>
               in Returned fi' (newDescriptor ctor fi' (node fi) flags sy))) \<and>
         (ctor (node fi) (dagService (inode fi)) = Inl err \<longrightarrow>
            Open dec ctor fi flags sy \<noteq> Returned fi1 (Inr fd)) \<and>
         (nodelk fi = Unlocked \<longrightarrow>
            Size dec fi = Returned fi (Inl (Errorf ''unrecognized node type in mfs/file.Size()''))) \<and>
         (Open dec ctor fi flags sy = Returned fi2 r \<longrightarrow>
            Size dec fi2 = Returned fi2 (Inl (Errorf ''unrecognized node type in mfs/file.Size()'')))"
proof -
  have c: "checkNode dec (node fi) = None"
    using assms by (simp add: checkNode_def)
  have b: "Open dec ctor fi flags sy = Blocked" if "nodelk fi = Locked"
    using that by (simp add: Open_held)
  have o: "Open dec ctor fi flags sy = lockAndConstruct ctor fi (node fi) flags sy"
    if "nodelk fi = Unlocked"
    using that c by (simp add: Open_free)
  have r: "Open dec ctor fi flags sy =
              (let fi' = fi\<lparr>desclock := (desclock fi)\<lparr>readerCount := Suc (readerCount (desclock fi))\<rparr>\<rparr>
               in Returned fi' (newDescriptor ctor fi' (node fi) flags sy))"
    if "nodelk fi = Unlocked" "flags = OpenReadOnly" "\<not> writer (desclock fi)"
    unfolding o [OF that(1)] using that(2-)
    by (simp add: lockAndConstruct_read)
  have w: "Open dec ctor fi flags sy =
              (let fi' = fi\<lparr>desclock := (desclock fi)\<lparr>writer := True\<rparr>\<rparr>
               in Returned fi' (newDescriptor ctor fi' (node fi) flags sy))"
    if "nodelk fi = Unlocked" "flags = OpenWriteOnly \<or> flags = OpenReadWrite"
       "\<not> writer (desclock fi)" "readerCount (desclock fi) = 0"
    unfolding o [OF that(1)] using that(3-)
    by (simp add: lockAndConstruct_write [OF that(2)])
  have n: "Open dec ctor fi flags sy \<noteq> Returned fi1 (Inr fd)"
    if "ctor (node fi) (dagService (inode fi)) = Inl err"
    using that by (rule Open_refused)
  have s0: "Size dec fi = Returned fi (Inl (Errorf ''unrecognized node type in mfs/file.Size()''))"
    if "nodelk fi = Unlocked"
    using that assms by (simp add: Size_free)
  have s: "Size dec fi2 = Returned fi2 (Inl (Errorf ''unrecognized node type in mfs/file.Size()''))"
    if op: "Open dec ctor fi flags sy = Returned fi2 r"
  proof -
    from Open_keeps [OF op] assms
    have "node fi2 = OtherNode v" "nodelk fi2 = Unlocked" by simp_all
    then show ?thesis
      by (simp add: Size_free)
  qed
  show ?thesis
    using c b o r w n s0 s by (intro conjI impI; (elim conjE)?) simp_all
qed

theorem Open_admits_other_nodes_witness:
  "Open tag_decoder unixfs_constructor ((file_on (OtherNode 1))\<lparr>nodelk := Locked\<rparr>)
     OpenReadOnly False = Blocked \<and>
   Open tag_decoder unixfs_constructor (file_on (OtherNode 1)) OpenReadOnly False =
     Returned (file_in_read (OtherNode 1)) (Inl (Errorf ''not a unixfs node'')) \<and>
   Open tag_decoder unixfs_constructor (file_on (OtherNode 1)) OpenWriteOnly False =
     Returned (file_in_write (OtherNode 1)) (Inl (Errorf ''not a unixfs node'')) \<and>
   Size tag_decoder (file_on (OtherNode 1)) =
     Returned (file_on (OtherNode 1))
       (Inl (Errorf ''unrecognized node type in mfs/file.Size()'')) \<and>
   Size tag_decoder (file_in_read (OtherNode 1)) =
     Returned (file_in_read (OtherNode 1))
       (Inl (Errorf ''unrecognized node type in mfs/file.Size()''))"
proof -
  have h: "node (file_on (OtherNode 1)) = OtherNode 1"
    "node ((file_on (OtherNode 1))\<lparr>nodelk := Locked\<rparr>) = OtherNode 1"
    by (simp_all add: file_on_def)
  have u: "nodelk (file_on (OtherNode 1)) = Unlocked" "\<not> writer (desclock (file_on (OtherNode 1)))"
    "readerCount (desclock (file_on (OtherNode 1))) = 0"
    "nodelk ((file_on (OtherNode 1))\<lparr>nodelk := Locked\<rparr>) = Locked"
    by (simp_all add: file_on_def RWMutex_zero_def)
  have fr: "(file_on (OtherNode 1))\<lparr>desclock := (desclock (file_on (OtherNode 1)))
             \<lparr>readerCount := Suc (readerCount (desclock (file_on (OtherNode 1))))\<rparr>\<rparr> =
           file_in_read (OtherNode 1)"
    by (simp add: file_on_def file_in_read_def RWMutex_zero_def)
  have fw: "(file_on (OtherNode 1))\<lparr>desclock := (desclock (file_on (OtherNode 1)))
             \<lparr>writer := True\<rparr>\<rparr> = file_in_write (OtherNode 1)"
    by (simp add: file_on_def file_in_write_def RWMutex_zero_def)
  have nr: "newDescriptor unixfs_constructor (file_in_read (OtherNode 1))
              (node (file_on (OtherNode 1))) flags sy = Inl (Errorf ''not a unixfs node'')"
    and nw: "newDescriptor unixfs_constructor (file_in_write (OtherNode 1))
              (node (file_on (OtherNode 1))) flags sy = Inl (Errorf ''not a unixfs node'')"
    for flags sy
    by (simp_all add: newDescriptor_def unixfs_constructor_def file_on_def)
  note i1 = Open_admits_other_nodes [OF h(2), where dec = tag_decoder
            and ctor = unixfs_constructor and flags = OpenReadOnly and sy = False]
  note i2 = Open_admits_other_nodes [OF h(1), where dec = tag_decoder
            and ctor = unixfs_constructor and flags = OpenReadOnly and sy = False
            and ?fi2.0 = "file_in_read (OtherNode 1)"
            and r = "Inl (Errorf ''not a unixfs node'')", unfolded Let_def fr nr]
  note i3 = Open_admits_other_nodes [OF h(1), where dec = tag_decoder
            and ctor = unixfs_constructor and flags = OpenWriteOnly and sy = False,
            unfolded Let_def fw nw]
  have a: "Open tag_decoder unixfs_constructor ((file_on (OtherNode 1))\<lparr>nodelk := Locked\<rparr>)
             OpenReadOnly False = Blocked"
    using i1 u(4) by blast
  have b: "Open tag_decoder unixfs_constructor (file_on (OtherNode 1)) OpenReadOnly False =
             Returned (file_in_read (OtherNode 1)) (Inl (Errorf ''not a unixfs node''))"
    using i2 u(1,2) by blast
  have c: "Open tag_decoder unixfs_constructor (file_on (OtherNode 1)) OpenWriteOnly False =
             Returned (file_in_write (OtherNode 1)) (Inl (Errorf ''not a unixfs node''))"
    using i3 u(1,2,3) by blast
  have d: "Size tag_decoder (file_on (OtherNode 1)) =
             Returned (file_on (OtherNode 1))
               (Inl (Errorf ''unrecognized node type in mfs/file.Size()''))"
    using i2 u(1) by blast
  have e: "Size tag_decoder (file_in_read (OtherNode 1)) =
             Returned (file_in_read (OtherNode 1))
               (Inl (Errorf ''unrecognized node type in mfs/file.Size()''))"
    using i2 b by blast
  from a b c d e show ?thesis by blast
qed

text \<open>
  Claim C10, as it is written, fails for the nil node: \<^verbatim>\<open>NewFile\<close> calls \<^verbatim>\<open>node.Cid()\<close>
  on it and panics; it returns neither a File nor an error.
\<close>

theorem NewFile_nil_node_counterexample:
  "NewFile ''f'' None () () = Panicked ()"
  by (simp add: NewFile_def)

text \<open>
  Claim C10, amended: for every name, every node that is not nil, every parent and every
  DAG service, \<^verbatim>\<open>NewFile\<close> returns a File and a nil error; the File carries the four
  arguments and fresh locks. For no argument at all does \<^verbatim>\<open>NewFile\<close> return an error: its
  error return is never used.
\<close>

theorem NewFile_returns_File:
  "(\<exists>fi. NewFile nm (Some nd) par dserv = Returned () (Inr fi) \<and>
         name (inode fi) = nm \<and> parent (inode fi) = par \<and> dagService (inode fi) = dserv \<and>
         node fi = nd \<and> desclock fi = RWMutex_zero \<and> nodelk fi = Unlocked) \<and>
   NewFile nm ndo par dserv \<noteq> Returned u (Inl err)"
  by (cases ndo) (simp_all add: NewFile_def Let_def)

theorem NewFile_returns_File_witness:
  "(\<exists>fi. NewFile ''f'' (Some (RawNode 1 [5, 6])) () () = Returned () (Inr fi) \<and>
         name (inode fi) = ''f'' \<and> parent (inode fi) = () \<and> dagService (inode fi) = () \<and>
         node fi = RawNode 1 [5, 6] \<and> desclock fi = RWMutex_zero \<and> nodelk fi = Unlocked) \<and>
   NewFile ''f'' (Some (RawNode 1 [5, 6])) () () \<noteq> Returned () (Inl (Errorf ''anything''))"
  using NewFile_returns_File [where nm = "''f''" and nd = "RawNode 1 [5, 6]" and par = "()"
          and dserv = "()" and ndo = "Some (RawNode 1 [5, 6])" and u = "()"
          and err = "Errorf ''anything''"]
  by simp

end
